theory Spec2Isabelle
  imports Complex_Main
begin

section \<open>The token card of the wallet: derived display state\<close>

text \<open>
  The component \<^verbatim>\<open>TokenCard\<close> (src/components/main/sections/Card/TokenCard.tsx) is a
  function of its props, of one piece of local state (\<^verbatim>\<open>selectedHistoryIndex\<close>) and of
  the wall clock. Each \<^verbatim>\<open>const\<close> of its body is a definition below, under the name
  it has in the source.

  Numbers: a JavaScript number is an IEEE 754 binary64 value. What the component receives
  (the prices of a series, the live price of the token) is finite, and a finite double is
  a rational: such inputs have type \<open>rat\<close>. What the body computes from them with
  \<^verbatim>\<open>-\<close>, \<^verbatim>\<open>/\<close> and \<^verbatim>\<open>*\<close> has type \<open>Number\<close>: each operation rounds its exact result
  to the nearest double and can overflow to an infinity or give NaN. A timestamp and the
  clock are integers below \<open>2^53\<close>, on which the operations of the body are exact (unix
  seconds in a series, milliseconds for the clock): they have type \<open>int\<close>.
  JavaScript's \<^verbatim>\<open>undefined\<close> is \<open>None\<close>.
\<close>

subsection \<open>Data\<close>

type_synonym TokenPeriod = string
type_synonym ApiBaseCurrency = string

text \<open>A price series: pairs (unix seconds, price), oldest first.\<close>

type_synonym ApiHistoryList = "(int \<times> rat) list"

type_synonym PriceHistoryPeriods = "TokenPeriod \<rightharpoonup> ApiHistoryList"

text \<open>
  The fields of \<^verbatim>\<open>UserToken\<close> that the derivation reads. The field \<^verbatim>\<open>price\<close> is
  called \<open>lastPrice\<close>, as the source renames it when it takes the token apart.
\<close>

record UserToken =
  slug :: string
  symbol :: string
  lastPrice :: rat
  priceUsd :: rat
  cmcSlug :: "string option"

text \<open>What the component receives from outside: its own props and the global's slices.\<close>

record Props =
  token :: UserToken
  period :: "TokenPeriod option"
  baseCurrency :: "ApiBaseCurrency option"
  historyPeriods :: "PriceHistoryPeriods option"

text \<open>The component instance: the props of the current render and the local state.\<close>

record Card =
  props :: Props
  selectedHistoryIndex :: int

text \<open>The argument of the global action \<^verbatim>\<open>loadPriceHistory\<close>.\<close>

record LoadPriceHistoryPayload =
  payloadSlug :: string
  payloadPeriod :: TokenPeriod
  payloadCurrency :: "ApiBaseCurrency option"

datatype DateLabel = FormatShortDay int bool bool | Now

datatype ChangePrefix = ArrowUp | ArrowDown | Zero

datatype ChartArea = LoadingSpinner | PriceChart ApiHistoryList int | NoChart

subsection \<open>JavaScript operators\<close>

text \<open>\<^verbatim>\<open>xs?.[i]\<close> on an array: \<^verbatim>\<open>undefined\<close> outside \<open>0 .. length - 1\<close>.\<close>

definition array_get :: "'a list \<Rightarrow> int \<Rightarrow> 'a option" where
  "array_get xs i = (if 0 \<le> i \<and> i < int (length xs) then Some (xs ! nat i) else None)"

text \<open>\<^verbatim>\<open>a ?? b\<close>: the left operand unless it is \<^verbatim>\<open>undefined\<close>.\<close>

definition nullish :: "'a option \<Rightarrow> 'a option \<Rightarrow> 'a option" where
  "nullish a b = (case a of Some x \<Rightarrow> Some x | None \<Rightarrow> b)"

definition nullish_or :: "'a option \<Rightarrow> 'a \<Rightarrow> 'a" where
  "nullish_or a b = (case a of Some x \<Rightarrow> x | None \<Rightarrow> b)"

subsection \<open>JavaScript numbers\<close>

text \<open>
  A finite double is kept as the rational it denotes. The two zeros are one value,
  \<open>Finite 0\<close>: the body tests truthiness, compares with 0 and takes \<^verbatim>\<open>Math.abs\<close>, none of
  which tells them apart, and it divides only by a price that passed the truthiness test
  and by powers of ten.
\<close>

datatype Number = Finite rat | PosInf | NegInf | NaN

definition infinity :: "bool \<Rightarrow> Number" where
  "infinity negative = (if negative then NegInf else PosInf)"

fun is_negative :: "Number \<Rightarrow> bool" where
  "is_negative (Finite a) = (a < 0)"
| "is_negative NegInf = True"
| "is_negative PosInf = False"
| "is_negative NaN = False"

text \<open>The number of binary digits of a natural number.\<close>

fun bitLength :: "nat \<Rightarrow> nat" where
  "bitLength n = (if n = 0 then 0 else bitLength (n div 2) + 1)"

declare bitLength.simps [simp del]

definition pow2 :: "int \<Rightarrow> rat" where
  "pow2 k = (if 0 \<le> k then 2 ^ nat k else 1 / 2 ^ nat (- k))"

text \<open>For \<open>0 < a\<close>, the exponent \<open>e\<close> with \<open>2^e \<le> a < 2^(e+1)\<close>.\<close>

definition ilog2 :: "rat \<Rightarrow> int" where
  "ilog2 a =
     (if 1 \<le> a then int (bitLength (nat \<lfloor>a\<rfloor>)) - 1
      else - int (bitLength (nat (\<lceil>1 / a\<rceil> - 1))))"

definition roundHalfEven :: "rat \<Rightarrow> int" where
  "roundHalfEven x =
     (let f = \<lfloor>x\<rfloor>; d = x - of_int f
      in if d < 1 / 2 then f else if 1 / 2 < d then f + 1 else if even f then f else f + 1)"

text \<open>
  The rounding of binary64, to nearest with ties to even: 53 significant bits, the
  exponent not below \<open>-1022\<close> (so the subnormals are multiples of \<open>2^-1074\<close>), and an
  infinity from \<open>2^1024\<close> on.
\<close>

definition fl :: "rat \<Rightarrow> Number" where
  "fl x =
     (if x = 0 then Finite 0
      else let e = max (ilog2 \<bar>x\<bar>) (- 1022);
               q = pow2 (e - 52);
               r = of_int (roundHalfEven (x / q)) * q
           in if pow2 1024 \<le> \<bar>r\<bar> then infinity (x < 0) else Finite r)"

text \<open>\<^verbatim>\<open>x - y\<close>\<close>

fun js_sub :: "Number \<Rightarrow> Number \<Rightarrow> Number" where
  "js_sub (Finite a) (Finite b) = fl (a - b)"
| "js_sub NaN y = NaN"
| "js_sub x NaN = NaN"
| "js_sub PosInf PosInf = NaN"
| "js_sub NegInf NegInf = NaN"
| "js_sub PosInf y = PosInf"
| "js_sub NegInf y = NegInf"
| "js_sub (Finite a) PosInf = NegInf"
| "js_sub (Finite a) NegInf = PosInf"

text \<open>\<^verbatim>\<open>x * y\<close>: an infinity times zero is NaN.\<close>

fun js_mul :: "Number \<Rightarrow> Number \<Rightarrow> Number" where
  "js_mul (Finite a) (Finite b) = fl (a * b)"
| "js_mul NaN y = NaN"
| "js_mul x NaN = NaN"
| "js_mul (Finite a) y = (if a = 0 then NaN else infinity ((a < 0) \<noteq> is_negative y))"
| "js_mul x (Finite b) = (if b = 0 then NaN else infinity (is_negative x \<noteq> (b < 0)))"
| "js_mul x y = infinity (is_negative x \<noteq> is_negative y)"

text \<open>
  \<^verbatim>\<open>x / y\<close>: zero by zero and an infinity by an infinity are NaN; anything else by zero
  is an infinity, a finite number by an infinity is zero.
\<close>

fun js_div :: "Number \<Rightarrow> Number \<Rightarrow> Number" where
  "js_div (Finite a) (Finite b) =
     (if b = 0 then (if a = 0 then NaN else infinity (a < 0)) else fl (a / b))"
| "js_div NaN y = NaN"
| "js_div x NaN = NaN"
| "js_div (Finite a) y = Finite 0"
| "js_div x (Finite b) = infinity (is_negative x \<noteq> (b < 0))"
| "js_div x y = NaN"

text \<open>\<^verbatim>\<open>Math.abs\<close>\<close>

fun Math_abs :: "Number \<Rightarrow> Number" where
  "Math_abs (Finite a) = Finite \<bar>a\<bar>"
| "Math_abs PosInf = PosInf"
| "Math_abs NegInf = PosInf"
| "Math_abs NaN = NaN"

text \<open>\<^verbatim>\<open>Math.round\<close>: the nearest integer, a half going up; exact on a double.\<close>

fun Math_round :: "Number \<Rightarrow> Number" where
  "Math_round (Finite a) = Finite (of_int \<lfloor>a + 1 / 2\<rfloor>)"
| "Math_round x = x"

text \<open>Truthiness of a number: false for zero and for NaN.\<close>

fun js_truthy :: "Number \<Rightarrow> bool" where
  "js_truthy (Finite a) = (a \<noteq> 0)"
| "js_truthy NaN = False"
| "js_truthy x = True"

text \<open>\<^verbatim>\<open>x < y\<close> and \<^verbatim>\<open>x >= y\<close>: both false when an operand is NaN.\<close>

fun js_lt :: "Number \<Rightarrow> Number \<Rightarrow> bool" where
  "js_lt (Finite a) (Finite b) = (a < b)"
| "js_lt NaN y = False"
| "js_lt x NaN = False"
| "js_lt x NegInf = False"
| "js_lt PosInf y = False"
| "js_lt x y = True"

definition js_ge :: "Number \<Rightarrow> Number \<Rightarrow> bool" where
  "js_ge x y = (x \<noteq> NaN \<and> y \<noteq> NaN \<and> \<not> js_lt x y)"

text \<open>A number or \<^verbatim>\<open>undefined\<close> as an operand of arithmetic: \<^verbatim>\<open>undefined\<close> is NaN.\<close>

definition toNumber :: "rat option \<Rightarrow> Number" where
  "toNumber v = (case v of None \<Rightarrow> NaN | Some a \<Rightarrow> Finite a)"

text \<open>
  Modelled from the spec: \<^verbatim>\<open>round\<close> of util/round is not under src/. The spec says
  "rounded to 2 decimal places" and "rounded to 4 decimal places"; the model scales by
  the power of ten, rounds to the nearest integer with \<^verbatim>\<open>Math.round\<close> and scales back,
  each step an operation on doubles.
\<close>

definition round_util :: "Number \<Rightarrow> nat \<Rightarrow> Number" where
  "round_util v precision =
     js_div (Math_round (js_mul v (Finite (10 ^ precision)))) (Finite (10 ^ precision))"

subsection \<open>Constants\<close>

definition OFFLINE_TIMEOUT :: int where
  "OFFLINE_TIMEOUT = 120000"

text \<open>
  Modelled from the spec: \<^verbatim>\<open>HISTORY_PERIODS\<close> of config is not under src/; the spec
  lists the periods as "1D, 1W, 1M, ALL", and the default is the first of them.
\<close>

definition DEFAULT_PERIOD :: TokenPeriod where
  "DEFAULT_PERIOD = ''1D''"

subsection \<open>The derivation of one render\<close>

text \<open>The parameter default \<^verbatim>\<open>period = DEFAULT_PERIOD\<close>.\<close>

definition currentPeriod :: "Card \<Rightarrow> TokenPeriod" where
  "currentPeriod c = (case period (props c) of None \<Rightarrow> DEFAULT_PERIOD | Some p \<Rightarrow> p)"

definition shouldUseDefaultCurrency :: "Card \<Rightarrow> bool" where
  "shouldUseDefaultCurrency c =
     (baseCurrency (props c) = None \<or> baseCurrency (props c) = Some (symbol (token (props c))))"

definition history :: "Card \<Rightarrow> ApiHistoryList option" where
  "history c =
     (case historyPeriods (props c) of None \<Rightarrow> None | Some hp \<Rightarrow> hp (currentPeriod c))"

definition tokenLastUpdatedAt :: "Card \<Rightarrow> int option" where
  "tokenLastUpdatedAt c =
     (case history c of
        None \<Rightarrow> None
      | Some h \<Rightarrow> if length h \<noteq> 0 then Some (fst (last h) * 1000) else None)"

definition tokenLastHistoryPrice :: "Card \<Rightarrow> rat" where
  "tokenLastHistoryPrice c =
     (case history c of
        None \<Rightarrow> lastPrice (token (props c))
      | Some h \<Rightarrow> if length h \<noteq> 0 then snd (last h) else lastPrice (token (props c)))"

definition selectedHistoryPoint :: "Card \<Rightarrow> (int \<times> rat) option" where
  "selectedHistoryPoint c =
     (case history c of None \<Rightarrow> None | Some h \<Rightarrow> array_get h (selectedHistoryIndex c))"

definition price :: "Card \<Rightarrow> rat" where
  "price c =
     nullish_or
       (nullish (map_option snd (selectedHistoryPoint c))
          (if shouldUseDefaultCurrency c then Some (tokenLastHistoryPrice c) else None))
       (lastPrice (token (props c)))"

text \<open>
  \<^verbatim>\<open>!tokenLastUpdatedAt || (Date.now() - tokenLastUpdatedAt > OFFLINE_TIMEOUT)\<close>:
  the negation is true of \<^verbatim>\<open>undefined\<close> and of the number 0.
\<close>

definition isLoading :: "Card \<Rightarrow> int \<Rightarrow> bool" where
  "isLoading c now =
     (case tokenLastUpdatedAt c of
        None \<Rightarrow> True
      | Some t \<Rightarrow> t = 0 \<or> now - t > OFFLINE_TIMEOUT)"

text \<open>
  \<^verbatim>\<open>formatShortDay\<close> of util/dateFormat is kept as the call it is: the timestamp in
  milliseconds and the two flags the source passes. An array is truthy, so the first
  test is whether the selected point exists.
\<close>

definition dateStr :: "Card \<Rightarrow> int \<Rightarrow> DateLabel" where
  "dateStr c now =
     (case selectedHistoryPoint c of
        Some pt \<Rightarrow> FormatShortDay (fst pt * 1000) True True
      | None \<Rightarrow>
          (case tokenLastUpdatedAt c of
             None \<Rightarrow> Now
           | Some t \<Rightarrow> if isLoading c now \<and> t \<noteq> 0 then FormatShortDay t True False else Now))"

text \<open>\<^verbatim>\<open>history?.find(([, value]) => Boolean(value))?.[1]\<close>\<close>

definition initialPrice :: "Card \<Rightarrow> rat option" where
  "initialPrice c =
     (case history c of
        None \<Rightarrow> None
      | Some h \<Rightarrow> map_option snd (find (\<lambda>pt. snd pt \<noteq> 0) h))"

text \<open>\<^verbatim>\<open>(initialPrice && lastPrice) ? lastPrice - initialPrice : 0\<close>\<close>

definition change :: "Card \<Rightarrow> Number" where
  "change c =
     (case initialPrice c of
        None \<Rightarrow> Finite 0
      | Some ip \<Rightarrow>
          if ip \<noteq> 0 \<and> lastPrice (token (props c)) \<noteq> 0
          then js_sub (Finite (lastPrice (token (props c)))) (Finite ip) else Finite 0)"

text \<open>\<^verbatim>\<open>change > 0 ? up : change < 0 ? down : 0\<close>\<close>

definition changePrefix :: "Card \<Rightarrow> ChangePrefix" where
  "changePrefix c =
     (if js_lt (Finite 0) (change c) then ArrowUp
      else if js_lt (change c) (Finite 0) then ArrowDown else Zero)"

text \<open>\<^verbatim>\<open>change ? Math.abs(round(change, 4)) : 0\<close>\<close>

definition changeValue :: "Card \<Rightarrow> Number" where
  "changeValue c =
     (if js_truthy (change c) then Math_abs (round_util (change c) 4) else Finite 0)"

text \<open>\<^verbatim>\<open>change ? Math.abs(round((change / initialPrice!) * 100, 2)) : 0\<close>\<close>

definition changePercent :: "Card \<Rightarrow> Number" where
  "changePercent c =
     (if js_truthy (change c)
      then Math_abs
             (round_util (js_mul (js_div (change c) (toNumber (initialPrice c))) (Finite 100)) 2)
      else Finite 0)"

text \<open>\<^verbatim>\<open>Boolean(change !== undefined)\<close>: \<open>change\<close> is always a number.\<close>

definition withChange :: "Card \<Rightarrow> bool" where
  "withChange c = True"

text \<open>The guard of the change indicator: \<^verbatim>\<open>withChange && ... Boolean(changeValue) && ...\<close>\<close>

definition tokenChangeShown :: "Card \<Rightarrow> bool" where
  "tokenChangeShown c = (withChange c \<and> js_truthy (changeValue c))"

text \<open>The fraction digits given to \<^verbatim>\<open>formatCurrency\<close> for the current price.\<close>

definition priceFractionDigits :: "Card \<Rightarrow> nat" where
  "priceFractionDigits c = (if selectedHistoryIndex c = - 1 then 2 else 4)"

text \<open>The content of the \<^verbatim>\<open>Transition\<close>: spinner, chart, or nothing.\<close>

definition chartArea :: "Card \<Rightarrow> ChartArea" where
  "chartArea c =
     (case history c of
        None \<Rightarrow> LoadingSpinner
      | Some h \<Rightarrow> if length h \<noteq> 0 then PriceChart h (selectedHistoryIndex c) else NoChart)"

subsection \<open>Events\<close>

text \<open>\<^verbatim>\<open>useState(-1)\<close>: the card as first rendered.\<close>

definition initialCard :: "Props \<Rightarrow> Card" where
  "initialCard p = \<lparr>props = p, selectedHistoryIndex = - 1\<rparr>"

text \<open>The chart's \<^verbatim>\<open>onSelectIndex\<close> is the state setter itself.\<close>

definition setSelectedHistoryIndex :: "int \<Rightarrow> Card \<Rightarrow> Card" where
  "setSelectedHistoryIndex i c = c\<lparr>selectedHistoryIndex := i\<rparr>"

text \<open>
  The two callbacks dispatch the global action \<^verbatim>\<open>loadPriceHistory\<close>, whose handler
  is not under src/. It is a parameter here: a global action changes what the component
  receives, that is its props, and has no access to the component's local state.
\<close>

definition refreshHistory ::
  "(LoadPriceHistoryPayload \<Rightarrow> Props \<Rightarrow> Props) \<Rightarrow> TokenPeriod option \<Rightarrow> Card \<Rightarrow> Card" where
  "refreshHistory loadPriceHistory newPeriod c =
     c\<lparr>props :=
         loadPriceHistory
           \<lparr>payloadSlug = slug (token (props c)),
            payloadPeriod = (case newPeriod of None \<Rightarrow> currentPeriod c | Some p \<Rightarrow> p),
            payloadCurrency = None\<rparr>
           (props c)\<rparr>"

definition handleCurrencyChange ::
  "(LoadPriceHistoryPayload \<Rightarrow> Props \<Rightarrow> Props) \<Rightarrow> ApiBaseCurrency \<Rightarrow> Card \<Rightarrow> Card" where
  "handleCurrencyChange loadPriceHistory currency c =
     c\<lparr>props :=
         loadPriceHistory
           \<lparr>payloadSlug = slug (token (props c)),
            payloadPeriod = currentPeriod c,
            payloadCurrency = Some currency\<rparr>
           (props c)\<rparr>"

text \<open>
  Modelled from the spec: the handler of \<^verbatim>\<open>loadPriceHistory\<close> is not under src/. The
  spec's \<open>switchPeriod\<close> and \<open>switchCurrency\<close> make the requested period and currency the
  current ones; the fetched series reaches the store later, so the stored series are
  left as they are.
\<close>

definition loadPriceHistory :: "LoadPriceHistoryPayload \<Rightarrow> Props \<Rightarrow> Props" where
  "loadPriceHistory payload p =
     p\<lparr>period := Some (payloadPeriod payload),
       baseCurrency :=
         (case payloadCurrency payload of None \<Rightarrow> baseCurrency p | Some cur \<Rightarrow> Some cur)\<rparr>"

subsection \<open>The staleness test as the specification words it\<close>

text \<open>
  \<open>isStale(lastUpdateTimestamp, now, timeoutDuration)\<close> is
  "lastUpdateTimestamp is absent OR (now - lastUpdateTimestamp) > timeoutDuration".
\<close>

definition isStale_spec :: "int option \<Rightarrow> int \<Rightarrow> int \<Rightarrow> bool" where
  "isStale_spec lastUpdateTimestamp now timeoutDuration =
     (case lastUpdateTimestamp of None \<Rightarrow> True | Some t \<Rightarrow> now - t > timeoutDuration)"

subsection \<open>Concrete cards\<close>

definition toncoin :: UserToken where
  "toncoin = \<lparr>slug = ''toncoin'', symbol = ''TON'', lastPrice = 12, priceUsd = 12, cmcSlug = Some ''toncoin''\<rparr>"

definition cardWith :: "PriceHistoryPeriods option \<Rightarrow> int \<Rightarrow> Card" where
  "cardWith hp i =
     \<lparr>props = \<lparr>token = toncoin, period = Some ''1D'', baseCurrency = None, historyPeriods = hp\<rparr>,
      selectedHistoryIndex = i\<rparr>"

text \<open>The same card over a token whose live price is 0.\<close>

definition zeroPriceCard :: "PriceHistoryPeriods option \<Rightarrow> int \<Rightarrow> Card" where
  "zeroPriceCard hp i =
     \<lparr>props = \<lparr>token = toncoin\<lparr>lastPrice := 0\<rparr>, period = Some ''1D'', baseCurrency = None,
                historyPeriods = hp\<rparr>,
      selectedHistoryIndex = i\<rparr>"

text \<open>A card whose 1D series is the one point \<open>first\<close> and whose token has the live price \<open>live\<close>.\<close>

definition pricedCard :: "rat \<Rightarrow> rat \<Rightarrow> Card" where
  "pricedCard first live =
     \<lparr>props = \<lparr>token = toncoin\<lparr>lastPrice := live\<rparr>, period = Some ''1D'', baseCurrency = None,
                historyPeriods = Some [''1D'' \<mapsto> [(1700000000, first)]]\<rparr>,
      selectedHistoryIndex = - 1\<rparr>"

text \<open>Two periods loaded, three points each; the scenario series of the spec is the first.\<close>

definition twoPeriods :: PriceHistoryPeriods where
  "twoPeriods =
     [''1D'' \<mapsto> [(1700000000, 10), (1700000060, 0), (1700000120, 12)],
      ''1M'' \<mapsto> [(1699400000, 8), (1699700000, 9), (1700000000, 11)]]"

section \<open>Properties\<close>

subsection \<open>Auxiliary facts\<close>

lemmas card_defs = currentPeriod_def history_def tokenLastUpdatedAt_def tokenLastHistoryPrice_def
  selectedHistoryPoint_def shouldUseDefaultCurrency_def array_get_def nullish_def nullish_or_def

lemmas example_defs = cardWith_def zeroPriceCard_def pricedCard_def toncoin_def twoPeriods_def

text \<open>Floors and ceilings of quotients of numerals, for the evaluation of \<open>fl\<close>.\<close>

lemma floor_numeral_quotient:
  "\<lfloor>(numeral a :: rat) / numeral b\<rfloor> = numeral a div numeral b"
  using floor_divide_of_int_eq [of "numeral a" "numeral b", where ?'a = rat] by simp

lemma floor_one_quotient: "\<lfloor>1 / (numeral b :: rat)\<rfloor> = 1 div numeral b"
  using floor_divide_of_int_eq [of 1 "numeral b", where ?'a = rat] by simp

lemma floor_neg_numeral_quotient:
  "\<lfloor>- ((numeral a :: rat) / numeral b)\<rfloor> = (- numeral a) div numeral b"
  using floor_divide_of_int_eq [of "- numeral a" "numeral b", where ?'a = rat] by simp

lemma ceiling_numeral_quotient:
  "\<lceil>(numeral a :: rat) / numeral b\<rceil> = - ((- numeral a) div numeral b)"
  using ceiling_divide_eq_div [of "numeral a" "numeral b", where ?'a = rat] by simp

lemmas number_eval = fl_def ilog2_def pow2_def roundHalfEven_def infinity_def bitLength.simps
  floor_numeral_quotient floor_one_quotient floor_neg_numeral_quotient ceiling_numeral_quotient

text \<open>The series, and what is computed from it alone, do not read the selection.\<close>

lemma history_select [simp]: "history (c\<lparr>selectedHistoryIndex := k\<rparr>) = history c"
  by (simp add: history_def currentPeriod_def split: option.splits)

lemma initialPrice_select [simp]:
  "initialPrice (c\<lparr>selectedHistoryIndex := k\<rparr>) = initialPrice c"
  by (simp add: initialPrice_def)

lemma change_select [simp]: "change (c\<lparr>selectedHistoryIndex := k\<rparr>) = change c"
  by (simp add: change_def split: option.splits)

text \<open>\<^verbatim>\<open>find\<close> with the truthiness test returns a point whose price is not zero.\<close>

lemma find_nonzero: "find (\<lambda>pt. snd pt \<noteq> (0::rat)) h = Some pt \<Longrightarrow> snd pt \<noteq> 0"
  by (induction h) (auto split: if_splits)

lemma initialPrice_nonzero: "initialPrice c = Some ip \<Longrightarrow> ip \<noteq> 0"
  by (auto simp: initialPrice_def split: option.splits dest: find_nonzero)

text \<open>
  Where NaN can and cannot come from: rounding never gives it, and neither do a product
  with and a quotient by a finite number other than zero.
\<close>

lemma fl_not_NaN: "fl x \<noteq> NaN"
  by (simp add: fl_def infinity_def Let_def)

lemma js_mul_not_NaN: "x \<noteq> NaN \<Longrightarrow> b \<noteq> 0 \<Longrightarrow> js_mul x (Finite b) \<noteq> NaN"
  by (cases x) (simp_all add: fl_not_NaN infinity_def)

lemma js_div_not_NaN: "x \<noteq> NaN \<Longrightarrow> b \<noteq> 0 \<Longrightarrow> js_div x (Finite b) \<noteq> NaN"
  by (cases x) (simp_all add: fl_not_NaN infinity_def)

lemma Math_round_not_NaN: "x \<noteq> NaN \<Longrightarrow> Math_round x \<noteq> NaN"
  by (cases x) simp_all

lemma round_util_not_NaN: "x \<noteq> NaN \<Longrightarrow> round_util x p \<noteq> NaN"
  by (simp add: round_util_def js_div_not_NaN Math_round_not_NaN js_mul_not_NaN)

lemma Math_abs_ge_zero: "x \<noteq> NaN \<Longrightarrow> js_ge (Math_abs x) (Finite 0) \<and> Math_abs x \<noteq> NaN"
  by (cases x) (simp_all add: js_ge_def)

lemma change_not_NaN: "change c \<noteq> NaN"
  by (simp add: change_def fl_not_NaN split: option.splits)

lemma change_truthy_initialPrice:
  "js_truthy (change c) \<Longrightarrow> \<exists>ip. initialPrice c = Some ip \<and> ip \<noteq> 0"
  by (auto simp: change_def split: option.splits if_splits)

subsection \<open>Concrete series and currencies\<close>

text \<open>The search for the initial price passes over leading zero prices.\<close>

lemma initialPrice_after_zeros:
  "initialPrice
     (cardWith (Some [''1D'' \<mapsto> [(1700000000, 0), (1700000060, 0), (1700000120, 7)]]) (- 1))
   = Some 7"
  by (simp add: initialPrice_def card_defs example_defs)

text \<open>
  A base currency equal to the symbol of the token counts as the default currency, any
  other does not.
\<close>

lemma shouldUseDefaultCurrency_symbol:
  "shouldUseDefaultCurrency
     (handleCurrencyChange loadPriceHistory ''TON'' (cardWith (Some twoPeriods) (- 1))) \<and>
   \<not> shouldUseDefaultCurrency
       (handleCurrencyChange loadPriceHistory ''EUR'' (cardWith (Some twoPeriods) (- 1)))"
  by (simp add: handleCurrencyChange_def loadPriceHistory_def card_defs example_defs)

subsection \<open>The arithmetic of doubles on concrete prices\<close>

lemma initialPrice_pricedCard:
  "initialPrice (pricedCard first live) = (if first \<noteq> 0 then Some first else None)"
  by (simp add: initialPrice_def card_defs example_defs)

lemma lastPrice_pricedCard: "lastPrice (token (props (pricedCard first live))) = live"
  by (simp add: pricedCard_def)

lemma change_pricedCard:
  "change (pricedCard first live) =
     (if first \<noteq> 0 \<and> live \<noteq> 0 then js_sub (Finite live) (Finite first) else Finite 0)"
  by (simp add: change_def initialPrice_pricedCard lastPrice_pricedCard)

text \<open>
  From 160 to 183 the quotient times 100 is the double just below 14.375, and from 160 to
  67 it is the double just below -58.125: the card shows 14.37 and 58.13.
\<close>

lemma changePercent_160_183: "changePercent (pricedCard 160 183) = fl (1437 / 100)"
  by (simp add: changePercent_def change_pricedCard initialPrice_pricedCard toNumber_def
        round_util_def number_eval)

lemma changePercent_160_67: "changePercent (pricedCard 160 67) = fl (5813 / 100)"
  by (simp add: changePercent_def change_pricedCard initialPrice_pricedCard toNumber_def
        round_util_def number_eval)

text \<open>The difference of \<open>2^54\<close> and 1 is not a double: the change is \<open>2^54\<close>.\<close>

lemma change_1_to_2p54: "change (pricedCard 1 (2 ^ 54)) = Finite (2 ^ 54)"
  by (simp add: change_pricedCard number_eval)

text \<open>From \<open>2^-1000\<close> to \<open>2^30\<close> the quotient overflows: the percentage is an infinity.\<close>

lemma change_tiny_to_large: "change (pricedCard (1 / 2 ^ 1000) (2 ^ 30)) = Finite (2 ^ 30)"
  by (simp add: change_pricedCard number_eval)

lemma changePercent_tiny_to_large: "changePercent (pricedCard (1 / 2 ^ 1000) (2 ^ 30)) = PosInf"
proof -
  have ip: "initialPrice (pricedCard (1 / 2 ^ 1000) (2 ^ 30)) = Some (1 / 2 ^ 1000)"
    by (simp add: initialPrice_pricedCard)
  have t: "js_truthy (Finite (2 ^ 30))" by simp
  have unfolded: "changePercent (pricedCard (1 / 2 ^ 1000) (2 ^ 30)) =
      Math_abs (round_util (js_mul (js_div (Finite (2 ^ 30)) (Finite (1 / 2 ^ 1000))) (Finite 100)) 2)"
    by (simp only: changePercent_def change_tiny_to_large ip toNumber_def t if_True option.case)
  have quotient: "js_div (Finite (2 ^ 30)) (Finite (1 / 2 ^ 1000)) = PosInf"
    by (simp add: number_eval)
  have rest: "Math_abs (round_util (js_mul PosInf (Finite 100)) 2) = PosInf"
    by (simp add: round_util_def infinity_def)
  show ?thesis by (simp only: unfolded quotient rest)
qed

subsection \<open>Selection and the period and currency switches\<close>

text \<open>
  C1, as the code has it: \<open>refreshHistory\<close> (with or without a new period) and
  \<open>handleCurrencyChange\<close> only dispatch \<open>loadPriceHistory\<close>; whatever that action does
  to the props, the selected index of the card is the same before and after. It is not
  reset to \<open>-1\<close>.
\<close>

theorem switch_keeps_selection:
  "selectedHistoryIndex (refreshHistory lph newPeriod c) = selectedHistoryIndex c \<and>
   selectedHistoryIndex (handleCurrencyChange lph currency c) = selectedHistoryIndex c"
  by (simp add: refreshHistory_def handleCurrencyChange_def)

text \<open>
  Index 1 is selected on the 1D series. After the switch to 1M, and after the switch to
  EUR, the index is still 1, and it resolves to a point of the series that is then active.
\<close>

theorem switch_resets_selection_counterexample:
  "selectedHistoryIndex (cardWith (Some twoPeriods) 1) = 1 \<and>
   selectedHistoryIndex
     (refreshHistory loadPriceHistory (Some ''1M'') (cardWith (Some twoPeriods) 1)) = 1 \<and>
   selectedHistoryPoint
     (refreshHistory loadPriceHistory (Some ''1M'') (cardWith (Some twoPeriods) 1))
     = Some (1699700000, 9) \<and>
   selectedHistoryIndex
     (handleCurrencyChange loadPriceHistory ''EUR'' (cardWith (Some twoPeriods) 1)) = 1 \<and>
   selectedHistoryPoint
     (handleCurrencyChange loadPriceHistory ''EUR'' (cardWith (Some twoPeriods) 1))
     = Some (1700000060, 0)"
  by (simp add: refreshHistory_def handleCurrencyChange_def loadPriceHistory_def
        card_defs example_defs)

subsection \<open>Loading and staleness\<close>

text \<open>
  C2, as the code has it: when the series of the current period is absent, \<open>isLoading\<close>
  is true, and the spinner is what the chart area shows exactly then; but \<open>isLoading\<close>
  is true for a fetched series with no points as well.
\<close>

theorem isLoading_absent_or_empty:
  "(history c = None \<longrightarrow> isLoading c now) \<and>
   (history c = Some [] \<longrightarrow> isLoading c now) \<and>
   (chartArea c = LoadingSpinner \<longleftrightarrow> history c = None)"
  by (simp add: isLoading_def tokenLastUpdatedAt_def chartArea_def split: option.splits)

theorem isLoading_absent_or_empty_witness:
  "history (cardWith None (- 1)) = None \<and>
   isLoading (cardWith None (- 1)) 1700000000000 \<and>
   chartArea (cardWith None (- 1)) = LoadingSpinner \<and>
   history (cardWith (Some [''1D'' \<mapsto> []]) (- 1)) = Some [] \<and>
   isLoading (cardWith (Some [''1D'' \<mapsto> []]) (- 1)) 1700000000000 \<and>
   chartArea (cardWith (Some [''1D'' \<mapsto> []]) (- 1)) \<noteq> LoadingSpinner"
proof -
  have a: "history (cardWith None (- 1)) = None"
    by (simp add: card_defs example_defs)
  have e: "history (cardWith (Some [''1D'' \<mapsto> []]) (- 1)) = Some []"
    by (simp add: card_defs example_defs)
  from a e
    isLoading_absent_or_empty [of "cardWith None (- 1)" 1700000000000]
    isLoading_absent_or_empty [of "cardWith (Some [''1D'' \<mapsto> []]) (- 1)" 1700000000000]
  show ?thesis by simp
qed

text \<open>The 1D series was fetched and is empty: \<open>isLoading\<close> is true.\<close>

theorem isLoading_empty_counterexample:
  "history (cardWith (Some [''1D'' \<mapsto> []]) (- 1)) = Some [] \<and>
   isLoading (cardWith (Some [''1D'' \<mapsto> []]) (- 1)) 1700000000000"
  by (simp add: isLoading_def card_defs example_defs)

text \<open>
  C3: for every active series, absent and empty ones included, and every time of the wall
  clock, the staleness flag (\<open>isLoading\<close>) is true if and only if the tail timestamp is
  absent or the clock is more than the two-minute timeout past it, provided that the
  clock is past the first two minutes of 1970 or that the tail is not at second 0 of 1970.
\<close>

theorem isLoading_iff_stale:
  assumes "OFFLINE_TIMEOUT < now \<or> tokenLastUpdatedAt c \<noteq> Some 0"
  shows "isLoading c now \<longleftrightarrow> isStale_spec (tokenLastUpdatedAt c) now OFFLINE_TIMEOUT"
  using assms by (auto simp: isLoading_def isStale_spec_def split: option.splits)

text \<open>A stale tail, a fresh tail, an empty series and an absent one.\<close>

theorem isLoading_iff_stale_witness:
  "OFFLINE_TIMEOUT < 1700000520000 \<and>
   tokenLastUpdatedAt (cardWith (Some twoPeriods) (- 1)) = Some 1700000120000 \<and>
   isLoading (cardWith (Some twoPeriods) (- 1)) 1700000520000 \<and>
   isStale_spec (tokenLastUpdatedAt (cardWith (Some twoPeriods) (- 1))) 1700000520000
     OFFLINE_TIMEOUT \<and>
   \<not> isLoading (cardWith (Some twoPeriods) (- 1)) 1700000125000 \<and>
   \<not> isStale_spec (tokenLastUpdatedAt (cardWith (Some twoPeriods) (- 1))) 1700000125000
       OFFLINE_TIMEOUT \<and>
   tokenLastUpdatedAt (cardWith (Some [''1D'' \<mapsto> []]) (- 1)) = None \<and>
   isLoading (cardWith (Some [''1D'' \<mapsto> []]) (- 1)) 1700000125000 \<and>
   tokenLastUpdatedAt (cardWith None (- 1)) = None \<and>
   isLoading (cardWith None (- 1)) 1700000125000"
proof -
  have clock: "OFFLINE_TIMEOUT < 1700000520000" "OFFLINE_TIMEOUT < 1700000125000"
    by (simp_all add: OFFLINE_TIMEOUT_def)
  have tail: "tokenLastUpdatedAt (cardWith (Some twoPeriods) (- 1)) = Some 1700000120000"
    "tokenLastUpdatedAt (cardWith (Some [''1D'' \<mapsto> []]) (- 1)) = None"
    "tokenLastUpdatedAt (cardWith None (- 1)) = None"
    by (simp_all add: card_defs example_defs)
  have spec: "isStale_spec (Some 1700000120000) 1700000520000 OFFLINE_TIMEOUT"
    "\<not> isStale_spec (Some 1700000120000) 1700000125000 OFFLINE_TIMEOUT"
    "isStale_spec None 1700000125000 OFFLINE_TIMEOUT"
    by (simp_all add: isStale_spec_def OFFLINE_TIMEOUT_def)
  from clock tail spec
    isLoading_iff_stale [where now = 1700000520000 and c = "cardWith (Some twoPeriods) (- 1)"]
    isLoading_iff_stale [where now = 1700000125000 and c = "cardWith (Some twoPeriods) (- 1)"]
    isLoading_iff_stale
      [where now = 1700000125000 and c = "cardWith (Some [''1D'' \<mapsto> []]) (- 1)"]
    isLoading_iff_stale [where now = 1700000125000 and c = "cardWith None (- 1)"]
  show ?thesis by simp
qed

subsection \<open>The displayed price\<close>

text \<open>
  C4: the displayed price is the price of the selected point when the selected index
  resolves to a point of the active series; otherwise the price of the tail of the series
  when the series is not empty and the default currency is in use; otherwise the live
  price of the token.
\<close>

theorem price_priority:
  "price c =
     (case selectedHistoryPoint c of
        Some pt \<Rightarrow> snd pt
      | None \<Rightarrow>
          (case history c of
             Some h \<Rightarrow> if h \<noteq> [] \<and> shouldUseDefaultCurrency c then snd (last h)
                       else lastPrice (token (props c))
           | None \<Rightarrow> lastPrice (token (props c))))"
  by (simp add: price_def nullish_def nullish_or_def tokenLastHistoryPrice_def
        split: option.splits)

text \<open>
  A selected point with price 0; the tail in the default currency; the tail again when
  the index is out of range; the live price in another currency; the live price with no
  series.
\<close>

theorem price_priority_witness:
  "price (cardWith (Some twoPeriods) 1) = 0 \<and>
   price (cardWith (Some [''1D'' \<mapsto> [(1700000000, 7)]]) (- 1)) = 7 \<and>
   price (cardWith (Some [''1D'' \<mapsto> [(1700000000, 7)]]) 3) = 7 \<and>
   price (handleCurrencyChange loadPriceHistory ''EUR''
            (cardWith (Some [''1D'' \<mapsto> [(1700000000, 7)]]) 3)) = 12 \<and>
   price (cardWith None 0) = 12"
  by (simp add: price_priority handleCurrencyChange_def loadPriceHistory_def
        card_defs example_defs)

subsection \<open>The change indicator\<close>

text \<open>
  C5: for a fixed token, series and currency, the change, its sign, the percentage and
  the absolute value are the same under any two selected indices.
\<close>

theorem change_ignores_selection:
  "change (c\<lparr>selectedHistoryIndex := i\<rparr>) = change (c\<lparr>selectedHistoryIndex := j\<rparr>) \<and>
   changePrefix (c\<lparr>selectedHistoryIndex := i\<rparr>) = changePrefix (c\<lparr>selectedHistoryIndex := j\<rparr>) \<and>
   changePercent (c\<lparr>selectedHistoryIndex := i\<rparr>) = changePercent (c\<lparr>selectedHistoryIndex := j\<rparr>) \<and>
   changeValue (c\<lparr>selectedHistoryIndex := i\<rparr>) = changeValue (c\<lparr>selectedHistoryIndex := j\<rparr>)"
  by (simp add: changePrefix_def changePercent_def changeValue_def)

text \<open>The first and the last point of the scenario series selected.\<close>

theorem change_ignores_selection_witness:
  "change (cardWith (Some twoPeriods) 0) = change (cardWith (Some twoPeriods) 2) \<and>
   changePrefix (cardWith (Some twoPeriods) 0) = changePrefix (cardWith (Some twoPeriods) 2) \<and>
   changePercent (cardWith (Some twoPeriods) 0) = changePercent (cardWith (Some twoPeriods) 2) \<and>
   changeValue (cardWith (Some twoPeriods) 0) = changeValue (cardWith (Some twoPeriods) 2)"
  using change_ignores_selection
    [where c = "cardWith (Some twoPeriods) (- 1)" and i = 0 and j = 2]
  by (simp add: cardWith_def)

text \<open>
  C6: whatever the finite prices, the percentage and the absolute value are never NaN and
  are greater than or equal to 0 (as JavaScript compares them: an infinity, which
  overflowing doubles can give, is), and both are exactly 0 when the initial price is
  absent or the change is 0.
\<close>

theorem change_figures_nonneg:
  "js_ge (changePercent c) (Finite 0) \<and> js_ge (changeValue c) (Finite 0) \<and>
   changePercent c \<noteq> NaN \<and> changeValue c \<noteq> NaN \<and>
   (initialPrice c = None \<or> change c = Finite 0 \<longrightarrow>
      changePercent c = Finite 0 \<and> changeValue c = Finite 0)"
proof -
  have val: "js_ge (changeValue c) (Finite 0) \<and> changeValue c \<noteq> NaN"
  proof (cases "js_truthy (change c)")
    case True
    have "round_util (change c) 4 \<noteq> NaN"
      by (rule round_util_not_NaN) (rule change_not_NaN)
    with True show ?thesis by (simp add: changeValue_def Math_abs_ge_zero)
  next
    case False
    then show ?thesis by (simp add: changeValue_def js_ge_def)
  qed
  have pct: "js_ge (changePercent c) (Finite 0) \<and> changePercent c \<noteq> NaN"
  proof (cases "js_truthy (change c)")
    case True
    then obtain ip where ip: "initialPrice c = Some ip" "ip \<noteq> 0"
      using change_truthy_initialPrice by blast
    have "js_div (change c) (Finite ip) \<noteq> NaN"
      using change_not_NaN ip(2) by (rule js_div_not_NaN)
    then have "js_mul (js_div (change c) (Finite ip)) (Finite 100) \<noteq> NaN"
      by (rule js_mul_not_NaN) simp
    then have "round_util (js_mul (js_div (change c) (Finite ip)) (Finite 100)) 2 \<noteq> NaN"
      by (rule round_util_not_NaN)
    with True ip(1) show ?thesis
      by (simp add: changePercent_def toNumber_def Math_abs_ge_zero)
  next
    case False
    then show ?thesis by (simp add: changePercent_def js_ge_def)
  qed
  have zero: "initialPrice c = None \<or> change c = Finite 0 \<longrightarrow>
      changePercent c = Finite 0 \<and> changeValue c = Finite 0"
    by (auto simp: changePercent_def changeValue_def change_def)
  from pct val zero show ?thesis by blast
qed

text \<open>
  A series whose only price is 0 has no initial price, and both figures are 0; where the
  quotient overflows, the percentage is an infinity, which is not NaN and not below 0.
\<close>

theorem change_figures_nonneg_witness:
  "initialPrice (pricedCard 0 12) = None \<and>
   changePercent (pricedCard 0 12) = Finite 0 \<and>
   changeValue (pricedCard 0 12) = Finite 0 \<and>
   changePercent (pricedCard (1 / 2 ^ 1000) (2 ^ 30)) = PosInf \<and>
   js_ge (changePercent (pricedCard (1 / 2 ^ 1000) (2 ^ 30))) (Finite 0) \<and>
   js_ge (changeValue (pricedCard (1 / 2 ^ 1000) (2 ^ 30))) (Finite 0)"
proof -
  have none: "initialPrice (pricedCard 0 12) = None"
    by (simp add: initialPrice_pricedCard)
  from none changePercent_tiny_to_large
    change_figures_nonneg [where c = "pricedCard 0 12"]
    change_figures_nonneg [where c = "pricedCard (1 / 2 ^ 1000) (2 ^ 30)"]
  show ?thesis by simp
qed

text \<open>
  C7: with the series \<open>[(t0, 10), (t1, 0), (t2, 12)]\<close> active and the live price 12, the
  initial price is 10, the change is 2, the percentage is 20 and the absolute value is 2.
\<close>

theorem scenario_change:
  assumes "history c = Some [(t0, 10), (t1, 0), (t2, 12)]"
    and "lastPrice (token (props c)) = 12"
  shows "initialPrice c = Some 10 \<and> change c = Finite 2 \<and>
         changePercent c = Finite 20 \<and> changeValue c = Finite 2"
proof -
  have ip: "initialPrice c = Some 10"
    using assms by (simp add: initialPrice_def)
  have sub: "fl (12 - 10) = Finite 2" by (simp add: number_eval)
  have ch: "change c = Finite 2"
    using assms ip sub by (simp add: change_def)
  have r4: "round_util (Finite 2) 4 = Finite 2"
    by (simp add: round_util_def number_eval)
  have quo: "js_div (Finite 2) (Finite 10) = Finite (3602879701896397 / 18014398509481984)"
    by (simp add: number_eval)
  have pct: "js_mul (Finite (3602879701896397 / 18014398509481984)) (Finite 100) = Finite 20"
    by (simp add: number_eval)
  have r2: "round_util (Finite 20) 2 = Finite 20"
    by (simp add: round_util_def number_eval)
  show ?thesis
    by (simp add: ip ch changeValue_def changePercent_def toNumber_def r4 quo pct r2
          del: js_div.simps js_mul.simps)
qed

theorem scenario_change_witness:
  "history (cardWith (Some twoPeriods) (- 1))
     = Some [(1700000000, 10), (1700000060, 0), (1700000120, 12)] \<and>
   lastPrice (token (props (cardWith (Some twoPeriods) (- 1)))) = 12 \<and>
   initialPrice (cardWith (Some twoPeriods) (- 1)) = Some 10 \<and>
   change (cardWith (Some twoPeriods) (- 1)) = Finite 2 \<and>
   changePercent (cardWith (Some twoPeriods) (- 1)) = Finite 20 \<and>
   changeValue (cardWith (Some twoPeriods) (- 1)) = Finite 2"
proof -
  have h: "history (cardWith (Some twoPeriods) (- 1))
             = Some [(1700000000, 10), (1700000060, 0), (1700000120, 12)]"
    by (simp add: card_defs example_defs)
  have p: "lastPrice (token (props (cardWith (Some twoPeriods) (- 1)))) = 12"
    by (simp add: example_defs)
  from h p scenario_change [OF h p] show ?thesis by simp
qed

text \<open>
  C10: when the live price of the token is 0, the change is 0, so are the percentage and
  the absolute value, and the change indicator is not shown, whatever the series holds.
\<close>

theorem zero_live_price_zero_change:
  assumes "lastPrice (token (props c)) = 0"
  shows "change c = Finite 0 \<and> changePercent c = Finite 0 \<and> changeValue c = Finite 0 \<and>
         \<not> tokenChangeShown c"
  using assms
  by (simp add: change_def changePercent_def changeValue_def tokenChangeShown_def
        split: option.splits)

text \<open>The scenario series, whose initial price is 10, under a token whose live price is 0.\<close>

theorem zero_live_price_zero_change_witness:
  "lastPrice (token (props (zeroPriceCard (Some twoPeriods) (- 1)))) = 0 \<and>
   initialPrice (zeroPriceCard (Some twoPeriods) (- 1)) = Some 10 \<and>
   change (zeroPriceCard (Some twoPeriods) (- 1)) = Finite 0 \<and>
   changePercent (zeroPriceCard (Some twoPeriods) (- 1)) = Finite 0 \<and>
   changeValue (zeroPriceCard (Some twoPeriods) (- 1)) = Finite 0 \<and>
   \<not> tokenChangeShown (zeroPriceCard (Some twoPeriods) (- 1))"
proof -
  have z: "lastPrice (token (props (zeroPriceCard (Some twoPeriods) (- 1)))) = 0"
    by (simp add: zeroPriceCard_def)
  have i: "initialPrice (zeroPriceCard (Some twoPeriods) (- 1)) = Some 10"
    by (simp add: initialPrice_def card_defs example_defs)
  from z i zero_live_price_zero_change [OF z] show ?thesis by simp
qed

subsection \<open>The date label and out-of-range selections\<close>

text \<open>
  C8: when the selected index resolves to a point of the active series, the date label is
  that point's timestamp, formatted, whether or not the series is stale; the absolute
  date of the tail and the label "Now" appear only when no selection resolves.
\<close>

theorem dateStr_selected:
  "(selectedHistoryPoint c = Some (t, p) \<longrightarrow> dateStr c now = FormatShortDay (t * 1000) True True) \<and>
   (selectedHistoryPoint c = None \<longrightarrow>
      dateStr c now =
        (case tokenLastUpdatedAt c of
           Some u \<Rightarrow> if isLoading c now \<and> u \<noteq> 0 then FormatShortDay u True False else Now
         | None \<Rightarrow> Now))"
  by (simp add: dateStr_def split: option.splits)

text \<open>Point 1 selected, stale and fresh; nothing selected, stale and fresh.\<close>

theorem dateStr_selected_witness:
  "selectedHistoryPoint (cardWith (Some twoPeriods) 1) = Some (1700000060, 0) \<and>
   isLoading (cardWith (Some twoPeriods) 1) 1700000520000 \<and>
   dateStr (cardWith (Some twoPeriods) 1) 1700000520000 = FormatShortDay 1700000060000 True True \<and>
   \<not> isLoading (cardWith (Some twoPeriods) 1) 1700000125000 \<and>
   dateStr (cardWith (Some twoPeriods) 1) 1700000125000 = FormatShortDay 1700000060000 True True \<and>
   selectedHistoryPoint (cardWith (Some twoPeriods) (- 1)) = None \<and>
   dateStr (cardWith (Some twoPeriods) (- 1)) 1700000520000 = FormatShortDay 1700000120000 True False \<and>
   dateStr (cardWith (Some twoPeriods) (- 1)) 1700000125000 = Now"
proof -
  have s: "selectedHistoryPoint (cardWith (Some twoPeriods) 1) = Some (1700000060, 0)"
    by (simp add: card_defs example_defs)
  have n: "selectedHistoryPoint (cardWith (Some twoPeriods) (- 1)) = None"
    by (simp add: card_defs example_defs)
  have l: "isLoading (cardWith (Some twoPeriods) 1) 1700000520000"
    "\<not> isLoading (cardWith (Some twoPeriods) 1) 1700000125000"
    "isLoading (cardWith (Some twoPeriods) (- 1)) 1700000520000"
    "\<not> isLoading (cardWith (Some twoPeriods) (- 1)) 1700000125000"
    "tokenLastUpdatedAt (cardWith (Some twoPeriods) (- 1)) = Some 1700000120000"
    by (simp_all add: isLoading_def OFFLINE_TIMEOUT_def card_defs example_defs)
  from s n l
    dateStr_selected [of "cardWith (Some twoPeriods) 1" 1700000060 0 1700000520000]
    dateStr_selected [of "cardWith (Some twoPeriods) 1" 1700000060 0 1700000125000]
    dateStr_selected [of "cardWith (Some twoPeriods) (- 1)" 0 0 1700000520000]
    dateStr_selected [of "cardWith (Some twoPeriods) (- 1)" 0 0 1700000125000]
  show ?thesis by simp
qed

text \<open>
  C9, as the code has it: a selection request whose index is not a position of the active
  series is stored as it is, neither rejected nor clamped; the displayed price and the
  date label are then those of the card with nothing selected (index \<open>-1\<close>), and the
  price is formatted with 4 fraction digits unless the index is \<open>-1\<close>.
\<close>

theorem select_out_of_range:
  assumes "case history c of None \<Rightarrow> True | Some h \<Rightarrow> i < 0 \<or> int (length h) \<le> i"
  shows "selectedHistoryIndex (setSelectedHistoryIndex i c) = i \<and>
         price (setSelectedHistoryIndex i c) = price (setSelectedHistoryIndex (- 1) c) \<and>
         dateStr (setSelectedHistoryIndex i c) now = dateStr (setSelectedHistoryIndex (- 1) c) now \<and>
         priceFractionDigits (setSelectedHistoryIndex i c) = (if i = - 1 then 2 else 4)"
proof -
  have hist: "history (setSelectedHistoryIndex k c) = history c" for k
    by (simp add: setSelectedHistoryIndex_def)
  have pt: "selectedHistoryPoint (setSelectedHistoryIndex i c) = None"
    using assms
    by (auto simp: selectedHistoryPoint_def hist array_get_def setSelectedHistoryIndex_def
          split: option.splits)
  have pt': "selectedHistoryPoint (setSelectedHistoryIndex (- 1) c) = None"
    by (auto simp: selectedHistoryPoint_def hist array_get_def setSelectedHistoryIndex_def
          split: option.splits)
  have tlu: "tokenLastUpdatedAt (setSelectedHistoryIndex k c) = tokenLastUpdatedAt c" for k
    by (simp add: tokenLastUpdatedAt_def hist)
  have ld: "isLoading (setSelectedHistoryIndex k c) now = isLoading c now" for k
    by (simp add: isLoading_def tlu)
  have rest: "tokenLastHistoryPrice (setSelectedHistoryIndex k c) = tokenLastHistoryPrice c"
    "shouldUseDefaultCurrency (setSelectedHistoryIndex k c) = shouldUseDefaultCurrency c"
    "props (setSelectedHistoryIndex k c) = props c" for k
    by (simp_all add: tokenLastHistoryPrice_def hist shouldUseDefaultCurrency_def
          setSelectedHistoryIndex_def split: option.splits)
  show ?thesis
    by (simp add: price_def dateStr_def pt pt' tlu ld rest priceFractionDigits_def
          cong: option.case_cong)
       (simp add: setSelectedHistoryIndex_def)
qed

theorem select_out_of_range_witness:
  "(case history (cardWith (Some twoPeriods) 2) of
      None \<Rightarrow> True | Some h \<Rightarrow> (5::int) < 0 \<or> int (length h) \<le> 5) \<and>
   selectedHistoryIndex (setSelectedHistoryIndex 5 (cardWith (Some twoPeriods) 2)) = 5 \<and>
   price (setSelectedHistoryIndex 5 (cardWith (Some twoPeriods) 2)) = 12 \<and>
   price (setSelectedHistoryIndex (- 1) (cardWith (Some twoPeriods) 2)) = 12 \<and>
   dateStr (setSelectedHistoryIndex 5 (cardWith (Some twoPeriods) 2)) 1700000125000 = Now \<and>
   dateStr (setSelectedHistoryIndex (- 1) (cardWith (Some twoPeriods) 2)) 1700000125000 = Now"
proof -
  have h: "case history (cardWith (Some twoPeriods) 2) of
             None \<Rightarrow> True | Some h \<Rightarrow> (5::int) < 0 \<or> int (length h) \<le> 5"
    by (simp add: card_defs example_defs)
  have p: "price (setSelectedHistoryIndex (- 1) (cardWith (Some twoPeriods) 2)) = 12"
    by (simp add: price_def setSelectedHistoryIndex_def card_defs example_defs)
  have d: "dateStr (setSelectedHistoryIndex (- 1) (cardWith (Some twoPeriods) 2)) 1700000125000 = Now"
    by (simp add: dateStr_def isLoading_def OFFLINE_TIMEOUT_def setSelectedHistoryIndex_def
          card_defs example_defs)
  from h p d select_out_of_range [OF h, of 1700000125000] show ?thesis by simp
qed

text \<open>
  Index 5 is requested on the three-point series with nothing selected. The request is
  not a no-op: the card holds index 5 afterwards, and the price, shown with 2 fraction
  digits before, is shown with 4.
\<close>

theorem select_out_of_range_counterexample:
  "history (cardWith (Some twoPeriods) (- 1))
     = Some [(1700000000, 10), (1700000060, 0), (1700000120, 12)] \<and>
   setSelectedHistoryIndex 5 (cardWith (Some twoPeriods) (- 1)) \<noteq> cardWith (Some twoPeriods) (- 1) \<and>
   selectedHistoryIndex (setSelectedHistoryIndex 5 (cardWith (Some twoPeriods) (- 1))) = 5 \<and>
   priceFractionDigits (cardWith (Some twoPeriods) (- 1)) = 2 \<and>
   priceFractionDigits (setSelectedHistoryIndex 5 (cardWith (Some twoPeriods) (- 1))) = 4"
  by (simp add: setSelectedHistoryIndex_def priceFractionDigits_def card_defs example_defs)

end
